theory Spec2Isabelle
  imports Complex_Main "HOL-Library.Char_ord" "HOL-Library.List_Lexorder"
    "HOL-Library.Product_Lexorder"
begin

section \<open>Specialization-gain pipeline: extractor, aggregator and TeX renderers\<close>

text \<open>
  A shallow embedding of \<^verbatim>\<open>scripts/gen_figs_specialization_gain.py\<close>. The script reads
  line-delimited JSON logs, normalises the records of one study, aggregates accuracy per
  (family, model_role, routing_mode) and writes two figures and two TeX files.

  What the script takes from Python and its libraries is a parameter of the model, the
  record \<open>python\<close> below: \<^verbatim>\<open>json.loads\<close> with every exception it can raise,
  \<^verbatim>\<open>str()\<close> on values that are not strings, \<^verbatim>\<open>str.lower\<close>, \<^verbatim>\<open>str.strip\<close> and the
  formatting of a float. The files matched by the glob are given in the sorted order of
  their paths, each as the lines its iteration yields and the exception, if any, that ends
  the iteration. Accuracies are exact rationals: the rounding of 64-bit floating point in
  the mean, the difference and the product with 100 is outside the model.
\<close>

subsection \<open>Python values and builtins\<close>

datatype json =
    JNull
  | JBool bool
  | JInt int
  | JFloat rat
  | JNonFinite
  | JStr string
  | JArr "json list"
  | JObj "(string \<times> json) list"

datatype error =
    SystemExit string
  | AttributeError
  | KeyError string
  | IndexError
  | ValueError
  | JSONDecodeError
  | RecursionError
  | UnicodeDecodeError
  | OSError

text \<open>\<^verbatim>\<open>bool(v)\<close>: the truth value Python gives a parsed JSON value.\<close>

fun truthy :: "json \<Rightarrow> bool" where
  "truthy JNull = False"
| "truthy (JBool b) = b"
| "truthy (JInt i) = (i \<noteq> 0)"
| "truthy (JFloat q) = (q \<noteq> 0)"
| "truthy JNonFinite = True"
| "truthy (JStr s) = (s \<noteq> [])"
| "truthy (JArr xs) = (xs \<noteq> [])"
| "truthy (JObj kvs) = (kvs \<noteq> [])"

text \<open>\<^verbatim>\<open>a or b\<close>: the first operand when it is truthy, the second otherwise.\<close>

definition py_or :: "json \<Rightarrow> json \<Rightarrow> json" where
  "py_or a b = (if truthy a then a else b)"

text \<open>\<^verbatim>\<open>d.get(k)\<close> on a dict, given by its items: \<^verbatim>\<open>None\<close> for a missing key.\<close>

definition dict_get :: "(string \<times> json) list \<Rightarrow> string \<Rightarrow> json" where
  "dict_get d k = (case map_of d k of None \<Rightarrow> JNull | Some v \<Rightarrow> v)"

text \<open>
  The functions of Python the script calls. \<open>json_loads\<close> is \<^verbatim>\<open>json.loads\<close>: \<open>Inr v\<close> is
  the parsed value, \<open>Inl e\<close> the exception raised, \<open>Inl JSONDecodeError\<close> for text the
  parser rejects. \<open>str_other\<close> is \<^verbatim>\<open>str()\<close> on a parsed value that is not a string,
  \<open>str_lower\<close> is \<^verbatim>\<open>str.lower\<close> (also behind \<^verbatim>\<open>Series.str.lower\<close>), \<open>str_strip\<close> is
  \<^verbatim>\<open>str.strip\<close>. \<open>format_float\<close> renders a float for the rest of a replacement field, its
  conversion and format spec: \<open>format_float py '':.1f''\<close> is the one-decimal format.
\<close>

record python =
  json_loads :: "string \<Rightarrow> error + json"
  str_other :: "json \<Rightarrow> string"
  str_lower :: "string \<Rightarrow> string"
  str_strip :: "string \<Rightarrow> string"
  format_float :: "string \<Rightarrow> rat \<Rightarrow> string"

text \<open>\<^verbatim>\<open>str(v)\<close>: a string is itself.\<close>

definition py_str :: "python \<Rightarrow> json \<Rightarrow> string" where
  "py_str py v = (case v of JStr s \<Rightarrow> s | _ \<Rightarrow> str_other py v)"

subsection \<open>Data model\<close>

text \<open>
  A file of the corpus: the lines \<^verbatim>\<open>for line in f\<close> yields, and the exception that ends
  the iteration when opening or decoding the file fails.
\<close>

datatype log_file = LogFile (file_lines: "string list") (file_error: "error option")

record group_key =
  family :: string
  model_role :: string
  routing_mode :: string

record observation = group_key +
  correct :: bool

record aggregate_row = group_key +
  n :: nat
  accuracy :: rat

subsection \<open>Record extractor: \<^verbatim>\<open>load_metrics\<close>\<close>

text \<open>Lines 95 to 112: the fields of one \<^verbatim>\<open>data\<close> dict; \<open>None\<close> is the \<^verbatim>\<open>continue\<close>.\<close>

definition normalize :: "python \<Rightarrow> (string \<times> json) list \<Rightarrow> observation option" where
  "normalize py data =
     (let fam = py_or (dict_get data ''family'') (dict_get data ''true_family'');
          role = py_or (dict_get data ''model_role'') (dict_get data ''role'');
          routing = py_or (py_or (dict_get data ''routing_mode'') (dict_get data ''routing''))
                      (JStr ''none'');
          corr = dict_get data ''correct''
      in if fam = JNull \<or> role = JNull \<or> corr = JNull then None
         else Some \<lparr>family = str_lower py (py_str py fam),
                    model_role = str_lower py (py_str py role),
                    routing_mode = str_lower py (py_str py routing),
                    correct = truthy corr\<rparr>)"

text \<open>
  Lines 84 to 112, one line of a file. \<open>Inr None\<close> is a skipped line, \<open>Inr (Some r)\<close> an
  appended record, \<open>Inl e\<close> an exception that leaves the loop: the \<^verbatim>\<open>except\<close> clause
  catches \<^verbatim>\<open>json.JSONDecodeError\<close> and nothing else, and \<^verbatim>\<open>.get\<close> on a parsed value
  that is not a dict raises \<^verbatim>\<open>AttributeError\<close>.
\<close>

definition read_line :: "python \<Rightarrow> string \<Rightarrow> string \<Rightarrow> error + observation option" where
  "read_line py study line0 =
     (let line = str_strip py line0 in
      if line = [] then Inr None
      else case json_loads py line of
        Inl e \<Rightarrow> (if e = JSONDecodeError then Inr None else Inl e)
      | Inr obj \<Rightarrow>
          (case obj of
             JObj kvs \<Rightarrow>
               if dict_get kvs ''study'' \<noteq> JStr study then Inr None
               else (case (case map_of kvs ''data'' of None \<Rightarrow> JObj [] | Some v \<Rightarrow> v) of
                       JObj data \<Rightarrow> Inr (normalize py data)
                     | _ \<Rightarrow> Inl AttributeError)
           | _ \<Rightarrow> Inl AttributeError))"

fun read_lines :: "python \<Rightarrow> string \<Rightarrow> string list \<Rightarrow> observation list \<Rightarrow> error + observation list" where
  "read_lines py study [] records = Inr records"
| "read_lines py study (l # ls) records =
     (case read_line py study l of
        Inl e \<Rightarrow> Inl e
      | Inr None \<Rightarrow> read_lines py study ls records
      | Inr (Some r) \<Rightarrow> read_lines py study ls (records @ [r]))"

text \<open>Lines 82 to 112: one file, its lines and then the exception of the iteration.\<close>

definition read_file :: "python \<Rightarrow> string \<Rightarrow> log_file \<Rightarrow> observation list \<Rightarrow> error + observation list" where
  "read_file py study f records =
     (case read_lines py study (file_lines f) records of
        Inl e \<Rightarrow> Inl e
      | Inr records' \<Rightarrow> (case file_error f of None \<Rightarrow> Inr records' | Some e \<Rightarrow> Inl e))"

fun read_files :: "python \<Rightarrow> string \<Rightarrow> log_file list \<Rightarrow> observation list \<Rightarrow> error + observation list" where
  "read_files py study [] records = Inr records"
| "read_files py study (f # fs) records =
     (case read_file py study f records of
        Inl e \<Rightarrow> Inl e
      | Inr records' \<Rightarrow> read_files py study fs records')"

definition no_files_msg :: "string \<Rightarrow> string \<Rightarrow> string" where
  "no_files_msg logdir pattern =
     ''No metric files found in '' @ logdir @ '' matching '' @ pattern"

definition no_records_msg :: "string \<Rightarrow> string \<Rightarrow> string \<Rightarrow> string" where
  "no_records_msg study logdir pattern =
     ''No records found for study='' @ [CHR 0x27] @ study @ [CHR 0x27] @ '' in '' @ logdir
       @ '' (pattern: '' @ pattern @ '')''"

text \<open>
  \<open>paths\<close> holds the files of \<^verbatim>\<open>sorted(logdir.glob(pattern))\<close>.
\<close>

definition load_metrics ::
  "python \<Rightarrow> string \<Rightarrow> string \<Rightarrow> string \<Rightarrow> log_file list \<Rightarrow> error + observation list"
where
  "load_metrics py logdir pattern study paths =
     (if paths = [] then Inl (SystemExit (no_files_msg logdir pattern))
      else case read_files py study paths [] of
        Inl e \<Rightarrow> Inl e
      | Inr records \<Rightarrow>
          if records = [] then Inl (SystemExit (no_records_msg study logdir pattern))
          else Inr records)"

subsection \<open>Aggregator: \<^verbatim>\<open>summarize\<close>\<close>

definition key_of :: "'a group_key_scheme \<Rightarrow> string \<times> string \<times> string" where
  "key_of r = (family r, model_role r, routing_mode r)"

text \<open>
  \<^verbatim>\<open>df.groupby([...]).agg(n=size, accuracy=mean).reset_index()\<close>: one row per key that
  occurs, the keys in ascending order; the mean of a boolean column is the fraction of
  \<^verbatim>\<open>True\<close>.
\<close>

definition group_rows :: "observation list \<Rightarrow> string \<times> string \<times> string \<Rightarrow> observation list" where
  "group_rows df k = filter (\<lambda>r. key_of r = k) df"

definition agg_row :: "observation list \<Rightarrow> string \<times> string \<times> string \<Rightarrow> aggregate_row" where
  "agg_row df k =
     (let g = group_rows df k in
      \<lparr>family = fst k, model_role = fst (snd k), routing_mode = snd (snd k),
       n = length g,
       accuracy = of_nat (length (filter correct g)) / of_nat (length g)\<rparr>)"

definition groupby_agg :: "observation list \<Rightarrow> aggregate_row list" where
  "groupby_agg df = map (agg_row df) (sort (remdups (map key_of df)))"

text \<open>\<^verbatim>\<open>sort_values(["family", "model_role"])\<close>, which keeps the order of equal keys.\<close>

definition sort_values :: "aggregate_row list \<Rightarrow> aggregate_row list" where
  "sort_values rows = sort_key (\<lambda>r. (family r, model_role r)) rows"

definition routing_warning :: "string \<Rightarrow> string" where
  "routing_warning rm =
     ''[!] No entries found for routing_mode='' @ rm @ ''; using all routing modes.''"

definition routing_mask :: "python \<Rightarrow> string \<Rightarrow> observation \<Rightarrow> bool" where
  "routing_mask py rm r = (str_lower py (routing_mode r) = rm)"

text \<open>
  Lines 127 to 137: the routing-mode filter, with the lines it prints. The frame always has
  the column \<^verbatim>\<open>routing_mode\<close>: every record of \<open>load_metrics\<close> has the key.
\<close>

definition routing_filter :: "python \<Rightarrow> observation list \<Rightarrow> string option \<Rightarrow> string list \<times> observation list" where
  "routing_filter py df routing_mode_arg =
     (case routing_mode_arg of
        None \<Rightarrow> ([], df)
      | Some rm0 \<Rightarrow>
          if rm0 = [] then ([], df)
          else
            (let rm = str_lower py rm0 in
             if list_ex (routing_mask py rm) df then ([], filter (routing_mask py rm) df)
             else ([routing_warning rm], df)))"

text \<open>The result is the printed lines and the summary.\<close>

definition summarize :: "python \<Rightarrow> observation list \<Rightarrow> string option \<Rightarrow> string list \<times> aggregate_row list" where
  "summarize py df routing_mode_arg =
     (let (printed, df') = routing_filter py df routing_mode_arg
      in (printed, sort_values (groupby_agg df')))"

subsection \<open>String formatting\<close>

text \<open>
  \<^verbatim>\<open>fmt_string.format(x)\<close> with one positional float and no keyword argument. The scan
  follows the format string from left to right: doubled braces are literal braces, a single
  opening brace starts a replacement field that ends at the matching closing brace. The
  name of a field is its text up to the first of \<^verbatim>\<open>. [ : !\<close>; an empty name takes the
  next positional argument, digits are a position, any other name is looked up among the
  keyword arguments and raises \<^verbatim>\<open>KeyError\<close>. What follows the name (accessors, conversion,
  format spec) is rendered by \<open>format_float\<close>.
\<close>

datatype scan = Lit | Open | Close | Field nat string

datatype numbering = NInit | NAuto | NManual

definition name_end :: "char \<Rightarrow> bool" where
  "name_end c = (c = CHR ''.'' \<or> c = CHR ''['' \<or> c = CHR '':'' \<or> c = CHR ''!'')"

definition is_digit :: "char \<Rightarrow> bool" where
  "is_digit c = (CHR ''0'' \<le> c \<and> c \<le> CHR ''9'')"

definition render_field ::
  "python \<Rightarrow> numbering \<Rightarrow> string \<Rightarrow> rat \<Rightarrow> error + string \<times> numbering"
where
  "render_field py num fld x =
     (let arg = takeWhile (\<lambda>c. \<not> name_end c) fld;
          rest = dropWhile (\<lambda>c. \<not> name_end c) fld
      in if arg = [] then
           (case num of
              NInit \<Rightarrow> Inr (format_float py rest x, NAuto)
            | NAuto \<Rightarrow> Inl IndexError
            | NManual \<Rightarrow> Inl ValueError)
         else if list_all is_digit arg then
           (case num of
              NAuto \<Rightarrow> Inl ValueError
            | _ \<Rightarrow> if list_all (\<lambda>c. c = CHR ''0'') arg then Inr (format_float py rest x, NManual)
                   else Inl IndexError)
         else Inl (KeyError arg))"

fun py_format_scan ::
  "python \<Rightarrow> rat \<Rightarrow> scan \<Rightarrow> numbering \<Rightarrow> string \<Rightarrow> error + string"
where
  "py_format_scan py x st num [] = (case st of Lit \<Rightarrow> Inr [] | _ \<Rightarrow> Inl ValueError)"
| "py_format_scan py x Lit num (c # cs) =
     (if c = CHR ''{'' then py_format_scan py x Open num cs
      else if c = CHR ''}'' then py_format_scan py x Close num cs
      else map_sum id ((#) c) (py_format_scan py x Lit num cs))"
| "py_format_scan py x Open num (c # cs) =
     (if c = CHR ''{'' then map_sum id ((#) c) (py_format_scan py x Lit num cs)
      else if c = CHR ''}'' then
        (case render_field py num [] x of
           Inl e \<Rightarrow> Inl e
         | Inr (s, num') \<Rightarrow> map_sum id ((@) s) (py_format_scan py x Lit num' cs))
      else py_format_scan py x (Field 0 [c]) num cs)"
| "py_format_scan py x Close num (c # cs) =
     (if c = CHR ''}'' then map_sum id ((#) c) (py_format_scan py x Lit num cs)
      else Inl ValueError)"
| "py_format_scan py x (Field d acc) num (c # cs) =
     (if c = CHR ''{'' then py_format_scan py x (Field (Suc d) (acc @ [c])) num cs
      else if c = CHR ''}'' then
        (case d of
           Suc d' \<Rightarrow> py_format_scan py x (Field d' (acc @ [c])) num cs
         | 0 \<Rightarrow>
            (case render_field py num acc x of
               Inl e \<Rightarrow> Inl e
             | Inr (s, num') \<Rightarrow> map_sum id ((@) s) (py_format_scan py x Lit num' cs)))
      else py_format_scan py x (Field d (acc @ [c])) num cs)"

definition py_format :: "python \<Rightarrow> string \<Rightarrow> rat \<Rightarrow> error + string" where
  "py_format py fmt_string x = py_format_scan py x Lit NInit fmt_string"

text \<open>\<^verbatim>\<open>str(n)\<close> of a count, and \<^verbatim>\<open>"\n".join(lines)\<close>.\<close>

fun str_nat :: "nat \<Rightarrow> string" where
  "str_nat k =
     (if k < 10 then [char_of (48 + k)] else str_nat (k div 10) @ [char_of (48 + k mod 10)])"

fun join_nl :: "string list \<Rightarrow> string" where
  "join_nl [] = []"
| "join_nl [l] = l"
| "join_nl (l # ls) = l @ [CHR 0x0A] @ join_nl ls"

definition bs :: string where
  "bs = [CHR 0x5C]"

subsection \<open>Callout macros: \<^verbatim>\<open>write_callouts_tex\<close>\<close>

definition family_to_macro :: "(string \<times> string) list" where
  "family_to_macro = [(''psk'', ''PSK''), (''qam'', ''QAM''), (''analog'', ''Analog'')]"

text \<open>
  Lines 183 to 184 and their two siblings. The f-string and the literal next to it are one
  string, joined before \<^verbatim>\<open>.format\<close> is called on it: the format string is
  \<^verbatim>\<open>\newcommand{\PSKGeneralistAcc}{{{:.1f}}}\<close> for the prefix \<^verbatim>\<open>PSK\<close>.
\<close>

definition macro_line ::
  "python \<Rightarrow> string \<Rightarrow> string \<Rightarrow> rat \<Rightarrow> error + string"
where
  "macro_line py macro_prefix suffix v =
     py_format py
       ((bs @ ''newcommand{'' @ bs @ macro_prefix @ suffix @ ''}'') @ ''{{{:.1f}}}'') v"

text \<open>Lines 167 to 193: the loop over the items of \<^verbatim>\<open>family_to_macro\<close>.\<close>

fun callout_lines ::
  "python \<Rightarrow> aggregate_row list \<Rightarrow> (string \<times> string) list \<Rightarrow> string list
     \<Rightarrow> error + string list"
where
  "callout_lines py summary [] lines = Inr lines"
| "callout_lines py summary ((fam, macro_prefix) # items) lines =
     (let sub = filter (\<lambda>r. family r = fam) summary in
      if sub = [] then callout_lines py summary items lines
      else
        (let gen = filter (\<lambda>r. model_role r = ''generalist'') sub;
             spec = filter (\<lambda>r. model_role r = ''specialist'') sub
         in if gen = [] \<or> spec = [] then callout_lines py summary items lines
            else
              (let gen_acc = accuracy (hd gen);
                   spec_acc = accuracy (hd spec);
                   gain = (spec_acc - gen_acc) * 100
               in case macro_line py macro_prefix ''GeneralistAcc'' (gen_acc * 100) of
                    Inl e \<Rightarrow> Inl e
                  | Inr l1 \<Rightarrow>
                     (case macro_line py macro_prefix ''SpecialistAcc'' (spec_acc * 100) of
                        Inl e \<Rightarrow> Inl e
                      | Inr l2 \<Rightarrow>
                         (case macro_line py macro_prefix ''Gain'' gain of
                            Inl e \<Rightarrow> Inl e
                          | Inr l3 \<Rightarrow>
                             callout_lines py summary items (lines @ [l1, l2, l3]))))))"

definition placeholder :: string where
  "placeholder = ''% No specialization callouts available; generated empty file.''"

text \<open>The text handed to \<^verbatim>\<open>write_text\<close>, or the exception raised before it.\<close>

definition callouts_text :: "python \<Rightarrow> aggregate_row list \<Rightarrow> error + string" where
  "callouts_text py summary =
     (case callout_lines py summary family_to_macro [] of
        Inl e \<Rightarrow> Inl e
      | Inr lines \<Rightarrow>
          Inr (join_nl (if lines = [] then [placeholder] else lines) @ [CHR 0x0A]))"

subsection \<open>Summary table: \<^verbatim>\<open>write_table_tex\<close>\<close>

definition table_header :: "string list" where
  "table_header =
     [bs @ ''begin{table}[t]'',
      ''  '' @ bs @ ''centering'',
      ''  '' @ bs @ ''caption{Generalist vs specialist accuracy per modulation family.}'',
      ''  '' @ bs @ ''label{tab:specialization-results}'',
      ''  '' @ bs @ ''begin{tabular}{llllr}'',
      ''    '' @ bs @ ''toprule'',
      ''    Family & Role & Routing & Acc ('' @ bs @ ''%) & $N$ '' @ bs @ bs,
      ''    '' @ bs @ ''midrule'']"

definition table_footer :: "string list" where
  "table_footer =
     [''    '' @ bs @ ''bottomrule'',
      ''  '' @ bs @ ''end{tabular}'',
      bs @ ''end{table}'',
      []]"

definition table_row :: "python \<Rightarrow> aggregate_row \<Rightarrow> string" where
  "table_row py row =
     (let acc = accuracy row * 100 in
      ''    '' @ family row @ '' & '' @ model_role row @ '' & '' @ routing_mode row @ '' & ''
        @ format_float py '':.1f'' acc @ '' & '' @ str_nat (n row) @ '' '' @ bs @ bs)"

definition table_lines :: "python \<Rightarrow> aggregate_row list \<Rightarrow> string list" where
  "table_lines py summary = table_header @ map (table_row py) summary @ table_footer"

definition table_text :: "python \<Rightarrow> aggregate_row list \<Rightarrow> string" where
  "table_text py summary = join_nl (table_lines py summary)"

subsection \<open>The data of the two bar charts\<close>

text \<open>\<^verbatim>\<open>sorted(summary["family"].unique())\<close>; a missing bar is \<open>None\<close>, the source's \<^verbatim>\<open>np.nan\<close>.\<close>

definition families_of :: "aggregate_row list \<Rightarrow> string list" where
  "families_of summary = sort (remdups (map family summary))"

definition acc_cell :: "aggregate_row list \<Rightarrow> string \<Rightarrow> string \<Rightarrow> rat option" where
  "acc_cell summary fam role =
     (let sub = filter (\<lambda>r. family r = fam \<and> model_role r = role) summary in
      if sub = [] then None else Some (accuracy (hd sub) * 100))"

definition acc_matrix :: "aggregate_row list \<Rightarrow> rat option list list" where
  "acc_matrix summary =
     map (\<lambda>fam. map (acc_cell summary fam) [''generalist'', ''specialist'']) (families_of summary)"

text \<open>Lines 292 to 300: the body of the loop of \<^verbatim>\<open>plot_family_delta\<close>.\<close>

definition family_delta :: "aggregate_row list \<Rightarrow> string \<Rightarrow> rat option" where
  "family_delta summary fam =
     (let sub = filter (\<lambda>r. family r = fam) summary;
          gen = filter (\<lambda>r. model_role r = ''generalist'') sub;
          spec = filter (\<lambda>r. model_role r = ''specialist'') sub
      in if gen = [] \<or> spec = [] then None
         else
           (let gen_acc = accuracy (hd gen);
                spec_acc = accuracy (hd spec)
            in Some ((spec_acc - gen_acc) * 100)))"

definition family_deltas :: "aggregate_row list \<Rightarrow> rat option list" where
  "family_deltas summary = map (family_delta summary) (families_of summary)"

subsection \<open>The run: \<^verbatim>\<open>main\<close>\<close>

text \<open>
  The output directories are a store from (directory, file name) to what was last written
  there; a figure is kept as the data it plots. \<^verbatim>\<open>write_text\<close> and \<^verbatim>\<open>savefig\<close> replace
  the whole file.
\<close>

datatype artifact = Text string | BarChart "string list" "rat option list list"

type_synonym store = "string \<times> string \<Rightarrow> artifact option"

record args =
  arg_logdir :: string
  arg_pattern :: string
  arg_outdir :: string
  arg_datadir :: string
  arg_study :: string
  arg_routing_mode :: string

definition plot_specialization_gain :: "aggregate_row list \<Rightarrow> string \<Rightarrow> store \<Rightarrow> store" where
  "plot_specialization_gain summary outdir st =
     st((outdir, ''specialization_gain_vs_generalist.pdf'')
          \<mapsto> BarChart (families_of summary) (acc_matrix summary))"

definition plot_family_delta :: "aggregate_row list \<Rightarrow> string \<Rightarrow> store \<Rightarrow> store" where
  "plot_family_delta summary outdir st =
     st((outdir, ''family_confusion_deltas.pdf'')
          \<mapsto> BarChart (families_of summary) [family_deltas summary])"

definition write_callouts_tex ::
  "python \<Rightarrow> aggregate_row list \<Rightarrow> string \<Rightarrow> store \<Rightarrow> error + store"
where
  "write_callouts_tex py summary datadir st =
     (case callouts_text py summary of
        Inl e \<Rightarrow> Inl e
      | Inr t \<Rightarrow> Inr (st((datadir, ''specialization_callouts.tex'') \<mapsto> Text t)))"

definition write_table_tex ::
  "python \<Rightarrow> aggregate_row list \<Rightarrow> string \<Rightarrow> store \<Rightarrow> store"
where
  "write_table_tex py summary datadir st =
     st((datadir, ''specialization_table.tex'') \<mapsto> Text (table_text py summary))"

text \<open>
  Lines 318 to 337. The result is the exception that ends the run (\<open>None\<close> for exit code 0)
  and the store it leaves behind.
\<close>

definition main :: "python \<Rightarrow> args \<Rightarrow> log_file list \<Rightarrow> store \<Rightarrow> error option \<times> store" where
  "main py a paths st =
     (case load_metrics py (arg_logdir a) (arg_pattern a) (arg_study a) paths of
        Inl e \<Rightarrow> (Some e, st)
      | Inr df \<Rightarrow>
          (let summary = snd (summarize py df (Some (arg_routing_mode a)));
               st1 = plot_specialization_gain summary (arg_outdir a) st;
               st2 = plot_family_delta summary (arg_outdir a) st1
           in case write_callouts_tex py summary (arg_datadir a) st2 of
                Inl e \<Rightarrow> (Some e, st2)
              | Inr st3 \<Rightarrow> (None, write_table_tex py summary (arg_datadir a) st3)))"

subsection \<open>Notions of the specification\<close>

text \<open>The rows of a family and a role, in the order of the summary.\<close>

definition rows_of :: "aggregate_row list \<Rightarrow> string \<Rightarrow> string \<Rightarrow> aggregate_row list" where
  "rows_of summary fam role = filter (\<lambda>r. family r = fam \<and> model_role r = role) summary"

text \<open>A family has a row of the given role in the summary.\<close>

definition has_role :: "aggregate_row list \<Rightarrow> string \<Rightarrow> string \<Rightarrow> bool" where
  "has_role summary fam role = list_ex (\<lambda>r. family r = fam \<and> model_role r = role) summary"


text \<open>The summary with, of the rows of one (family, model_role) pair, only the first.\<close>

fun first_rows_from :: "(string \<times> string) list \<Rightarrow> aggregate_row list \<Rightarrow> aggregate_row list" where
  "first_rows_from seen [] = []"
| "first_rows_from seen (r # rs) =
     (if (family r, model_role r) \<in> set seen then first_rows_from seen rs
      else r # first_rows_from ((family r, model_role r) # seen) rs)"

definition first_rows :: "aggregate_row list \<Rightarrow> aggregate_row list" where
  "first_rows summary = first_rows_from [] summary"

subsection \<open>Example inputs\<close>

definition dq :: "string \<Rightarrow> string" where
  "dq s = [CHR 0x22] @ s @ [CHR 0x22]"

text \<open>
  A log line of the study \<^verbatim>\<open>s\<close> with the keys \<^verbatim>\<open>family\<close>, \<^verbatim>\<open>model_role\<close> and \<^verbatim>\<open>correct\<close>,
  and the object \<^verbatim>\<open>json.loads\<close> returns for it.
\<close>

definition record_line :: "string \<Rightarrow> string \<Rightarrow> bool \<Rightarrow> string" where
  "record_line fam role c =
     ''{'' @ dq ''study'' @ '': '' @ dq ''s'' @ '', '' @ dq ''data'' @ '': {''
       @ dq ''family'' @ '': '' @ dq fam @ '', ''
       @ dq ''model_role'' @ '': '' @ dq role @ '', ''
       @ dq ''correct'' @ '': '' @ (if c then ''true'' else ''false'') @ ''}}''"

definition record_obj :: "string \<Rightarrow> string \<Rightarrow> bool \<Rightarrow> json" where
  "record_obj fam role c =
     JObj [(''study'', JStr ''s''),
           (''data'', JObj [(''family'', JStr fam), (''model_role'', JStr role),
                            (''correct'', JBool c)])]"

definition null_data_line :: string where
  "null_data_line = ''{'' @ dq ''study'' @ '': '' @ dq ''s'' @ '', '' @ dq ''data'' @ '': null}''"

definition null_data_obj :: json where
  "null_data_obj = JObj [(''study'', JStr ''s''), (''data'', JNull)]"

definition ex_lines :: "(string \<times> json) list" where
  "ex_lines =
     [(record_line ''PSK'' ''generalist'' True, record_obj ''PSK'' ''generalist'' True),
      (record_line ''PSK'' ''generalist'' False, record_obj ''PSK'' ''generalist'' False),
      (record_line ''psk'' ''Specialist'' True, record_obj ''psk'' ''Specialist'' True),
      (record_line '''' ''generalist'' True, record_obj '''' ''generalist'' True),
      (null_data_line, null_data_obj)]"

text \<open>
  A line of 1000 opening brackets: no JSON, and \<^verbatim>\<open>json.loads\<close> raises \<^verbatim>\<open>RecursionError\<close>
  on it, not \<^verbatim>\<open>JSONDecodeError\<close>.
\<close>

definition deep_line :: string where
  "deep_line = replicate 1000 (CHR ''['')"

text \<open>\<^verbatim>\<open>json.loads\<close> on the lines above; every other text of the examples is rejected.\<close>

definition ex_loads :: "string \<Rightarrow> error + json" where
  "ex_loads l =
     (case map_of ex_lines l of
        Some v \<Rightarrow> Inr v
      | None \<Rightarrow> if l = deep_line then Inl RecursionError else Inl JSONDecodeError)"

text \<open>\<^verbatim>\<open>str()\<close> on the values of the examples that are not strings.\<close>

definition ex_str_of :: "json \<Rightarrow> string" where
  "ex_str_of v =
     (case v of JNull \<Rightarrow> ''None'' | JBool b \<Rightarrow> (if b then ''True'' else ''False'') | _ \<Rightarrow> [])"

text \<open>\<^verbatim>\<open>str.lower\<close> and \<^verbatim>\<open>str.strip\<close> on ASCII text, for the examples.\<close>

definition ascii_lower_char :: "char \<Rightarrow> char" where
  "ascii_lower_char c =
     (let k = (of_char c :: nat) in if 65 \<le> k \<and> k \<le> 90 then char_of (k + 32) else c)"

definition ascii_lower :: "string \<Rightarrow> string" where
  "ascii_lower s = map ascii_lower_char s"

definition ascii_isspace :: "char \<Rightarrow> bool" where
  "ascii_isspace c = (let k = (of_char c :: nat) in (9 \<le> k \<and> k \<le> 13) \<or> (28 \<le> k \<and> k \<le> 32))"

definition ascii_strip :: "string \<Rightarrow> string" where
  "ascii_strip s = rev (dropWhile ascii_isspace (rev (dropWhile ascii_isspace s)))"

text \<open>
  A one-decimal rendering for the examples: the exact value rounded to the nearest tenth,
  a tie to the even digit.
\<close>

definition round_half_even :: "rat \<Rightarrow> nat" where
  "round_half_even y =
     (let f = \<lfloor>y\<rfloor>; d = y - of_int f
      in nat (if d < 1 / 2 then f else if 1 / 2 < d then f + 1 else if even f then f else f + 1))"

definition ex_fmt :: "string \<Rightarrow> rat \<Rightarrow> string" where
  "ex_fmt spec q =
     (let m = round_half_even (\<bar>q\<bar> * 10)
      in (if q < 0 then ''-'' else []) @ str_nat (m div 10) @ ''.'' @ str_nat (m mod 10))"

definition ex_py :: python where
  "ex_py = \<lparr>json_loads = ex_loads, str_other = ex_str_of, str_lower = ascii_lower,
            str_strip = ascii_strip, format_float = ex_fmt\<rparr>"

definition ex_kvs :: "(string \<times> json) list" where
  "ex_kvs =
     [(''study'', JStr ''s''),
      (''data'', JObj [(''family'', JStr ''PSK''), (''model_role'', JStr ''generalist''),
                       (''correct'', JBool True)])]"

definition ex_data :: "(string \<times> json) list" where
  "ex_data = [(''family'', JStr ''PSK''), (''model_role'', JStr ''generalist''),
              (''correct'', JBool True)]"

definition empty_family_data :: "(string \<times> json) list" where
  "empty_family_data =
     [(''family'', JStr []), (''model_role'', JStr ''generalist''), (''correct'', JBool True)]"

definition ex_args :: args where
  "ex_args = \<lparr>arg_logdir = ''../logs'', arg_pattern = ''metrics_*.jsonl'', arg_outdir = ''figs'',
              arg_datadir = ''data'', arg_study = ''s'', arg_routing_mode = ''oracle''\<rparr>"

definition ex_df :: "observation list" where
  "ex_df =
     [\<lparr>family = ''psk'', model_role = ''generalist'', routing_mode = ''oracle'', correct = True\<rparr>,
      \<lparr>family = ''psk'', model_role = ''generalist'', routing_mode = ''oracle'', correct = False\<rparr>,
      \<lparr>family = ''psk'', model_role = ''specialist'', routing_mode = ''predicted'', correct = True\<rparr>]"

definition ex_row :: aggregate_row where
  "ex_row = \<lparr>family = ''psk'', model_role = ''generalist'', routing_mode = ''oracle'',
             n = 2, accuracy = 1 / 2\<rparr>"

definition row :: "string \<Rightarrow> string \<Rightarrow> string \<Rightarrow> nat \<Rightarrow> rat \<Rightarrow> aggregate_row" where
  "row f r m k a = \<lparr>family = f, model_role = r, routing_mode = m, n = k, accuracy = a\<rparr>"

definition ex_summary_psk :: "aggregate_row list" where
  "ex_summary_psk =
     [row ''psk'' ''generalist'' ''oracle'' 2 (1 / 2), row ''psk'' ''specialist'' ''oracle'' 4 (3 / 4)]"





definition ex_stale :: store where
  "ex_stale = Map.empty((''data'', ''specialization_callouts.tex'') \<mapsto> Text ''stale'')"

section \<open>The aggregator\<close>

subsection \<open>Sorting keeps sums and keys\<close>

lemma sum_list_insort_key:
  "sum_list (map f (insort_key k x xs)) = (f x :: nat) + sum_list (map f xs)"
  by (induction xs) (auto simp: ac_simps)

lemma sum_list_sort_key: "sum_list (map f (sort_key k xs)) = (sum_list (map f xs) :: nat)"
  by (induction xs) (auto simp: sum_list_insort_key)

lemma distinct_map_insort_key:
  "distinct (map f (insort_key k x xs)) = distinct (map f (x # xs))"
  by (induction xs) (auto simp: set_insort_key)

lemma distinct_map_sort_key: "distinct (map f (sort_key k xs)) = distinct (map f xs)"
  by (induction xs) (auto simp: distinct_map_insort_key)

lemma set_sort_values: "set (sort_values rows) = set rows"
  by (simp add: sort_values_def)


subsection \<open>Groups\<close>

lemma length_group_rows: "length (group_rows df k) = count_list (map key_of df) k"
  by (induction df) (auto simp: group_rows_def)

lemma sum_groups_length:
  "sum_list (map (\<lambda>k. length (group_rows df k)) (sort (remdups (map key_of df)))) = length df"
proof -
  let ?ks = "sort (remdups (map key_of df))"
  have d: "distinct ?ks" by simp
  have s: "set ?ks = set (map key_of df)" by simp
  have "sum_list (map (\<lambda>k. length (group_rows df k)) ?ks)
        = sum (\<lambda>k. count_list (map key_of df) k) (set ?ks)"
    using d by (simp add: sum_list_distinct_conv_sum_set length_group_rows)
  also have "\<dots> = length (map key_of df)"
    unfolding s by (rule sum_count_set) auto
  finally show ?thesis by simp
qed

lemma group_rows_nonempty: "k \<in> key_of ` set df \<Longrightarrow> group_rows df k \<noteq> []"
  by (auto simp: group_rows_def filter_empty_conv)

lemma n_agg_row: "n (agg_row df k) = length (group_rows df k)"
  by (simp add: agg_row_def Let_def)

lemma key_of_agg_row: "key_of (agg_row df k) = k"
  by (simp add: agg_row_def key_of_def Let_def)

lemma accuracy_agg_row:
  "accuracy (agg_row df k)
     = of_nat (length (filter correct (group_rows df k))) / of_nat (length (group_rows df k))"
  by (simp add: agg_row_def Let_def)

lemma sum_n_groupby_agg: "sum_list (map n (groupby_agg df)) = length df"
  using sum_groups_length [of df] by (simp add: groupby_agg_def comp_def n_agg_row)

lemma keys_groupby_agg: "map key_of (groupby_agg df) = sort (remdups (map key_of df))"
  by (simp add: groupby_agg_def comp_def key_of_agg_row)

lemma groupby_agg_row:
  assumes "r \<in> set (groupby_agg df)"
  shows "r = agg_row df (key_of r) \<and> key_of r \<in> key_of ` set df"
proof -
  from assms obtain k where k: "k \<in> set (map key_of df)" and r: "r = agg_row df k"
    by (auto simp: groupby_agg_def)
  from r have "key_of r = k" by (simp add: key_of_agg_row)
  with k r show ?thesis by simp
qed


lemma summary_parts:
  "sum_list (map n (sort_values (groupby_agg df))) = length df"
  "distinct (map key_of (sort_values (groupby_agg df)))"
  "set (map key_of (sort_values (groupby_agg df))) = key_of ` set df"
proof -
  show "sum_list (map n (sort_values (groupby_agg df))) = length df"
    by (simp add: sort_values_def sum_list_sort_key sum_n_groupby_agg)
  show "distinct (map key_of (sort_values (groupby_agg df)))"
    by (simp add: sort_values_def distinct_map_sort_key keys_groupby_agg)
  have "set (map key_of (sort_values (groupby_agg df))) = set (map key_of (groupby_agg df))"
    by (simp add: set_sort_values)
  also have "\<dots> = set (map key_of df)"
    unfolding keys_groupby_agg by simp
  finally show "set (map key_of (sort_values (groupby_agg df))) = key_of ` set df"
    by simp
qed

lemma fraction_bounds:
  fixes a b :: nat
  assumes "a \<le> b" "0 < b"
  shows "0 \<le> (of_nat a / of_nat b :: rat) \<and> (of_nat a / of_nat b :: rat) \<le> 1"
  using assms by (simp add: divide_le_eq_1)

text \<open>
  C2. Whatever the observations and the routing-mode argument, the rows of the summary
  partition the observations left by the routing-mode filter: their counts \<open>n\<close> add up to
  the number of those observations, no two rows have the same
  (family, model_role, routing_mode), and the keys of the rows are the keys that occur.
\<close>

theorem summarize_partitions:
  "sum_list (map n (snd (summarize py df rm))) = length (snd (routing_filter py df rm))
   \<and> distinct (map key_of (snd (summarize py df rm)))
   \<and> set (map key_of (snd (summarize py df rm))) = key_of ` set (snd (routing_filter py df rm))"
  using summary_parts [of "snd (routing_filter py df rm)"]
  by (simp add: summarize_def split_beta)

lemma group_rows_fields:
  "group_rows df (key_of r)
     = filter (\<lambda>r'. family r' = family r \<and> model_role r' = model_role r
                     \<and> routing_mode r' = routing_mode r) df"
  by (simp add: group_rows_def key_of_def)

text \<open>
  C3. Every row of the summary has a count of at least one; the count is the number of
  observations left by the routing-mode filter that have the family, the role and the
  routing mode of the row; the accuracy is the number of those observations that are
  correct, divided by the count; and the accuracy lies between 0 and 1.
\<close>

theorem aggregate_row_invariant:
  assumes "r \<in> set (snd (summarize py df rm))"
  shows "1 \<le> n r
    \<and> n r = length (filter (\<lambda>r'. family r' = family r \<and> model_role r' = model_role r
                                \<and> routing_mode r' = routing_mode r)
                (snd (routing_filter py df rm)))
    \<and> accuracy r
        = of_nat (length (filter (\<lambda>r'. (family r' = family r \<and> model_role r' = model_role r
                                         \<and> routing_mode r' = routing_mode r) \<and> correct r')
                    (snd (routing_filter py df rm))))
          / of_nat (n r)
    \<and> 0 \<le> accuracy r \<and> accuracy r \<le> 1"
proof -
  let ?surv = "snd (routing_filter py df rm)"
  let ?g = "group_rows ?surv (key_of r)"
  from assms have "r \<in> set (groupby_agg ?surv)"
    by (simp add: summarize_def split_beta set_sort_values)
  then have r: "r = agg_row ?surv (key_of r)" and k: "key_of r \<in> key_of ` set ?surv"
    using groupby_agg_row by blast+
  from k have ne: "?g \<noteq> []" by (rule group_rows_nonempty)
  have n: "n r = length ?g" using r n_agg_row by metis
  have a: "accuracy r = of_nat (length (filter correct ?g)) / of_nat (length ?g)"
    using r accuracy_agg_row by metis
  have pos: "0 < length ?g" using ne by simp
  have le: "length (filter correct ?g) \<le> length ?g" by simp
  have one: "1 \<le> length ?g" using ne by (cases ?g) auto
  have b: "0 \<le> accuracy r \<and> accuracy r \<le> 1"
    unfolding a by (rule fraction_bounds [OF le pos])
  have c: "filter correct ?g
           = filter (\<lambda>r'. (family r' = family r \<and> model_role r' = model_role r
                            \<and> routing_mode r' = routing_mode r) \<and> correct r') ?surv"
    by (simp add: group_rows_fields)
  from one n a b show ?thesis
    unfolding c [symmetric] by (simp add: group_rows_fields)
qed

theorem aggregate_row_invariant_witness:
  "ex_row \<in> set (snd (summarize ex_py ex_df None))
   \<and> length (snd (summarize ex_py ex_df None)) = 2
   \<and> length (snd (routing_filter ex_py ex_df None)) = 3
   \<and> n ex_row = 2
   \<and> n ex_row = length (filter (\<lambda>r'. family r' = family ex_row \<and> model_role r' = model_role ex_row
                                       \<and> routing_mode r' = routing_mode ex_row)
                       (snd (routing_filter ex_py ex_df None)))
   \<and> accuracy ex_row = 1 / 2
   \<and> accuracy ex_row
       = of_nat (length (filter (\<lambda>r'. (family r' = family ex_row \<and> model_role r' = model_role ex_row
                                        \<and> routing_mode r' = routing_mode ex_row) \<and> correct r')
                   (snd (routing_filter ex_py ex_df None))))
         / of_nat (n ex_row)
   \<and> 0 \<le> accuracy ex_row \<and> accuracy ex_row \<le> 1"
proof -
  have h: "ex_row \<in> set (snd (summarize ex_py ex_df None))"
    by code_simp
  have l: "length (snd (summarize ex_py ex_df None)) = 2"
    "length (snd (routing_filter ex_py ex_df None)) = 3"
    by code_simp+
  have v: "n ex_row = 2" "accuracy ex_row = 1 / 2"
    by (simp_all add: ex_row_def)
  from aggregate_row_invariant [OF h] h l v show ?thesis by blast
qed



section \<open>The record extractor\<close>

lemma read_lines_append:
  "read_lines py study (xs @ ys) recs =
     (case read_lines py study xs recs of
        Inl e \<Rightarrow> Inl e
      | Inr recs' \<Rightarrow> read_lines py study ys recs')"
  by (induction xs arbitrary: recs) (auto split: sum.splits option.splits)

lemma read_files_append:
  "read_files py study (fs @ gs) recs =
     (case read_files py study fs recs of
        Inl e \<Rightarrow> Inl e
      | Inr recs' \<Rightarrow> read_files py study gs recs')"
  by (induction fs arbitrary: recs) (auto split: sum.splits)

lemma read_line_skips:
  "str_strip py l = [] \<or> json_loads py (str_strip py l) = Inl JSONDecodeError \<Longrightarrow>
     read_line py study l = Inr None"
  by (auto simp: read_line_def Let_def)

lemma read_line_raises:
  "str_strip py l \<noteq> [] \<Longrightarrow> json_loads py (str_strip py l) = Inl e \<Longrightarrow> e \<noteq> JSONDecodeError \<Longrightarrow>
     read_line py study l = Inl e"
  by (simp add: read_line_def Let_def)

lemma read_lines_skip:
  assumes "read_line py study l = Inr None"
  shows "read_lines py study (xs @ [l] @ ys) recs = read_lines py study (xs @ ys) recs"
  using assms by (simp add: read_lines_append split: sum.splits)

lemma read_files_skip:
  assumes "read_line py study l = Inr None"
  shows "read_files py study (fs1 @ [LogFile (xs @ [l] @ ys) err] @ fs2) recs
           = read_files py study (fs1 @ [LogFile (xs @ ys) err] @ fs2) recs"
  using read_lines_skip [OF assms]
  by (simp add: read_files_append read_file_def split: sum.splits)

lemma load_metrics_exits:
  "load_metrics py logdir pattern study [] = Inl (SystemExit (no_files_msg logdir pattern))"
  "paths \<noteq> [] \<Longrightarrow> read_files py study paths [] = Inr [] \<Longrightarrow>
     load_metrics py logdir pattern study paths
       = Inl (SystemExit (no_records_msg study logdir pattern))"
  by (simp_all add: load_metrics_def)

text \<open>
  A blank line, and a line \<^verbatim>\<open>json.loads\<close> rejects with \<^verbatim>\<open>JSONDecodeError\<close>, is skipped:
  putting it anywhere in a file changes neither the result of \<open>load_metrics\<close> nor the
  result of the run.
\<close>

lemma decode_error_line_skipped:
  assumes "str_strip py l = [] \<or> json_loads py (str_strip py l) = Inl JSONDecodeError"
  shows "read_line py study l = Inr None
    \<and> load_metrics py logdir pattern study (fs1 @ [LogFile (xs @ [l] @ ys) err] @ fs2)
        = load_metrics py logdir pattern study (fs1 @ [LogFile (xs @ ys) err] @ fs2)
    \<and> main py a (fs1 @ [LogFile (xs @ [l] @ ys) err] @ fs2) st
        = main py a (fs1 @ [LogFile (xs @ ys) err] @ fs2) st"
proof -
  have s: "read_line py study' l = Inr None" for study'
    using assms by (rule read_line_skips)
  have lm: "load_metrics py logdir' pattern' study' (fs1 @ [LogFile (xs @ [l] @ ys) err] @ fs2)
        = load_metrics py logdir' pattern' study' (fs1 @ [LogFile (xs @ ys) err] @ fs2)"
    for logdir' pattern' study'
    using read_files_skip [OF s, of study' fs1 xs ys err fs2 "[]"]
    by (simp add: load_metrics_def)
  show ?thesis using s lm by (simp add: main_def)
qed

text \<open>
  C9 fails on the code. The \<^verbatim>\<open>except\<close> clause of line 89 catches \<^verbatim>\<open>json.JSONDecodeError\<close>
  only. A line of 1000 opening brackets is no JSON, \<^verbatim>\<open>json.loads\<close> raises
  \<^verbatim>\<open>RecursionError\<close> on it, and put between two valid lines it ends a run that exits with 0
  without it. A file whose iteration stops with \<^verbatim>\<open>UnicodeDecodeError\<close>, at a line of
  bytes that are no text, ends the run in the same way.
\<close>

theorem deep_line_aborts:
  "json_loads ex_py (str_strip ex_py deep_line) = Inl RecursionError
   \<and> load_metrics ex_py ''../logs'' ''metrics_*.jsonl'' ''s''
        [LogFile [record_line ''PSK'' ''generalist'' True, record_line ''PSK'' ''generalist'' False] None]
      = Inr [\<lparr>family = ''psk'', model_role = ''generalist'', routing_mode = ''none'', correct = True\<rparr>,
             \<lparr>family = ''psk'', model_role = ''generalist'', routing_mode = ''none'', correct = False\<rparr>]
   \<and> fst (main ex_py ex_args
        [LogFile [record_line ''PSK'' ''generalist'' True, record_line ''PSK'' ''generalist'' False] None]
        Map.empty) = None
   \<and> load_metrics ex_py ''../logs'' ''metrics_*.jsonl'' ''s''
        [LogFile [record_line ''PSK'' ''generalist'' True, deep_line,
                  record_line ''PSK'' ''generalist'' False] None]
      = Inl RecursionError
   \<and> fst (main ex_py ex_args
        [LogFile [record_line ''PSK'' ''generalist'' True, deep_line,
                  record_line ''PSK'' ''generalist'' False] None]
        Map.empty) = Some RecursionError
   \<and> fst (main ex_py ex_args
        [LogFile [record_line ''PSK'' ''generalist'' True] (Some UnicodeDecodeError)]
        Map.empty) = Some UnicodeDecodeError"
  by code_simp

lemma py_or_null: "py_or a b = JNull \<longleftrightarrow> \<not> truthy a \<and> b = JNull"
  by (cases a) (auto simp: py_or_def)

lemma normalize_eq:
  "normalize py d =
     (if (\<not> truthy (dict_get d ''family'') \<and> dict_get d ''true_family'' = JNull)
         \<or> (\<not> truthy (dict_get d ''model_role'') \<and> dict_get d ''role'' = JNull)
         \<or> dict_get d ''correct'' = JNull
      then None
      else Some \<lparr>family = str_lower py (py_str py
                     (if truthy (dict_get d ''family'') then dict_get d ''family''
                      else dict_get d ''true_family'')),
                 model_role = str_lower py (py_str py
                     (if truthy (dict_get d ''model_role'') then dict_get d ''model_role''
                      else dict_get d ''role'')),
                 routing_mode = str_lower py (py_str py
                     (if truthy (dict_get d ''routing_mode'') then dict_get d ''routing_mode''
                      else if truthy (dict_get d ''routing'') then dict_get d ''routing''
                      else JStr ''none'')),
                 correct = truthy (dict_get d ''correct'')\<rparr>)"
  unfolding normalize_def Let_def py_or_null
  by (simp add: py_or_def)

text \<open>
  C4, amended. For a line whose JSON is an object of the requested study with an object
  (or no entry) under \<^verbatim>\<open>data\<close>: the family is \<^verbatim>\<open>data.family\<close> when that value is truthy
  and \<^verbatim>\<open>data.true_family\<close> otherwise, the role is \<^verbatim>\<open>data.model_role\<close> or
  \<^verbatim>\<open>data.role\<close> in the same way, the routing mode is \<^verbatim>\<open>data.routing_mode\<close>, else
  \<^verbatim>\<open>data.routing\<close>, else \<^verbatim>\<open>none\<close>; the record is dropped exactly when the value chosen
  for the family or for the role is \<^verbatim>\<open>None\<close>, or \<^verbatim>\<open>correct\<close> is missing or null; family,
  role and routing mode are the results of \<^verbatim>\<open>str.lower\<close> on the chosen values.
\<close>

theorem read_line_fields:
  assumes "str_strip py line0 \<noteq> []"
    and "json_loads py (str_strip py line0) = Inr (JObj kvs)"
    and "dict_get kvs ''study'' = JStr study"
    and "(case map_of kvs ''data'' of None \<Rightarrow> JObj [] | Some v \<Rightarrow> v) = JObj d"
  shows "read_line py study line0 = Inr
     (if (\<not> truthy (dict_get d ''family'') \<and> dict_get d ''true_family'' = JNull)
         \<or> (\<not> truthy (dict_get d ''model_role'') \<and> dict_get d ''role'' = JNull)
         \<or> dict_get d ''correct'' = JNull
      then None
      else Some \<lparr>family = str_lower py (py_str py
                     (if truthy (dict_get d ''family'') then dict_get d ''family''
                      else dict_get d ''true_family'')),
                 model_role = str_lower py (py_str py
                     (if truthy (dict_get d ''model_role'') then dict_get d ''model_role''
                      else dict_get d ''role'')),
                 routing_mode = str_lower py (py_str py
                     (if truthy (dict_get d ''routing_mode'') then dict_get d ''routing_mode''
                      else if truthy (dict_get d ''routing'') then dict_get d ''routing''
                      else JStr ''none'')),
                 correct = truthy (dict_get d ''correct'')\<rparr>)"
proof -
  have "read_line py study line0 = Inr (normalize py d)"
    using assms by (simp add: read_line_def Let_def)
  then show ?thesis by (simp only: normalize_eq)
qed

theorem read_line_fields_witness:
  "str_strip ex_py (record_line ''PSK'' ''generalist'' True) \<noteq> []
   \<and> json_loads ex_py (str_strip ex_py (record_line ''PSK'' ''generalist'' True)) = Inr (JObj ex_kvs)
   \<and> dict_get ex_kvs ''study'' = JStr ''s''
   \<and> (case map_of ex_kvs ''data'' of None \<Rightarrow> JObj [] | Some v \<Rightarrow> v) = JObj ex_data
   \<and> read_line ex_py ''s'' (record_line ''PSK'' ''generalist'' True)
       = Inr (Some \<lparr>family = ''psk'', model_role = ''generalist'', routing_mode = ''none'',
                      correct = True\<rparr>)"
proof -
  have h1: "str_strip ex_py (record_line ''PSK'' ''generalist'' True) \<noteq> []" by code_simp
  have h2: "json_loads ex_py (str_strip ex_py (record_line ''PSK'' ''generalist'' True))
            = Inr (JObj ex_kvs)"
    by code_simp
  have h3: "dict_get ex_kvs ''study'' = JStr ''s''" by code_simp
  have h4: "(case map_of ex_kvs ''data'' of None \<Rightarrow> JObj [] | Some v \<Rightarrow> v) = JObj ex_data"
    by code_simp
  have v: "(if (\<not> truthy (dict_get ex_data ''family'') \<and> dict_get ex_data ''true_family'' = JNull)
         \<or> (\<not> truthy (dict_get ex_data ''model_role'') \<and> dict_get ex_data ''role'' = JNull)
         \<or> dict_get ex_data ''correct'' = JNull
      then None
      else Some \<lparr>family = str_lower ex_py (py_str ex_py
                     (if truthy (dict_get ex_data ''family'') then dict_get ex_data ''family''
                      else dict_get ex_data ''true_family'')),
                 model_role = str_lower ex_py (py_str ex_py
                     (if truthy (dict_get ex_data ''model_role'') then dict_get ex_data ''model_role''
                      else dict_get ex_data ''role'')),
                 routing_mode = str_lower ex_py (py_str ex_py
                     (if truthy (dict_get ex_data ''routing_mode'') then dict_get ex_data ''routing_mode''
                      else if truthy (dict_get ex_data ''routing'') then dict_get ex_data ''routing''
                      else JStr ''none'')),
                 correct = truthy (dict_get ex_data ''correct'')\<rparr>)
       = Some \<lparr>family = ''psk'', model_role = ''generalist'', routing_mode = ''none'',
                      correct = True\<rparr>"
    by code_simp
  from read_line_fields [where py = ex_py
      and ?line0.0 = "record_line ''PSK'' ''generalist'' True", OF h1 h2 h3 h4] v h1 h2 h3 h4
  show ?thesis by simp
qed

text \<open>
  C4 as stated fails: a record whose \<^verbatim>\<open>family\<close> is the empty string has the keys
  \<^verbatim>\<open>family\<close>, \<^verbatim>\<open>model_role\<close> and \<^verbatim>\<open>correct\<close>, and is dropped.
\<close>

theorem empty_family_dropped:
  "json_loads ex_py (str_strip ex_py (record_line [] ''generalist'' True))
     = Inr (JObj [(''study'', JStr ''s''), (''data'', JObj empty_family_data)])
   \<and> map_of empty_family_data ''family'' = Some (JStr [])
   \<and> map_of empty_family_data ''model_role'' = Some (JStr ''generalist'')
   \<and> map_of empty_family_data ''correct'' = Some (JBool True)
   \<and> read_line ex_py ''s'' (record_line [] ''generalist'' True) = Inr None"
  by code_simp

section \<open>The renderers\<close>

subsection \<open>The callout loop\<close>

lemma filter_role_family:
  "filter (\<lambda>r. model_role r = ro) (filter (\<lambda>r. family r = fam) s) = rows_of s fam ro"
  by (simp add: rows_of_def conj_commute)

lemma has_role_rows: "has_role s fam ro \<longleftrightarrow> rows_of s fam ro \<noteq> []"
  by (auto simp: has_role_def rows_of_def list_ex_iff filter_empty_conv)



lemma family_delta_eq:
  "family_delta s fam =
     (if has_role s fam ''generalist'' \<and> has_role s fam ''specialist''
      then Some ((accuracy (hd (rows_of s fam ''specialist''))
                   - accuracy (hd (rows_of s fam ''generalist''))) * 100)
      else None)"
  unfolding family_delta_def Let_def filter_role_family has_role_rows by auto



subsection \<open>The deltas read the first row of a family and role\<close>

lemma rows_of_first_rows_from:
  "rows_of (first_rows_from seen s) fam ro
     = (if (fam, ro) \<in> set seen then [] else take 1 (rows_of s fam ro))"
  by (induction s arbitrary: seen) (auto simp: rows_of_def)

lemma rows_of_first_rows: "rows_of (first_rows s) fam ro = take 1 (rows_of s fam ro)"
  by (simp add: first_rows_def rows_of_first_rows_from)

lemma has_role_first_rows: "has_role (first_rows s) fam ro = has_role s fam ro"
  by (cases "rows_of s fam ro") (simp_all add: has_role_rows rows_of_first_rows)

lemma hd_rows_of_first_rows: "hd (rows_of (first_rows s) fam ro) = hd (rows_of s fam ro)"
  by (cases "rows_of s fam ro") (simp_all add: rows_of_first_rows)

lemma has_role_family: "has_role s fam ro \<Longrightarrow> fam \<in> family ` set s"
  by (auto simp: has_role_def list_ex_iff)

lemma family_has_role: "r \<in> set s \<Longrightarrow> has_role s (family r) (model_role r)"
  by (auto simp: has_role_def list_ex_iff)

lemma families_first_rows: "family ` set (first_rows s) = family ` set s"
proof (intro set_eqI iffI)
  fix f assume "f \<in> family ` set (first_rows s)"
  then obtain r where r: "r \<in> set (first_rows s)" "f = family r" by auto
  from family_has_role [OF r(1)] have "has_role s (family r) (model_role r)"
    by (simp add: has_role_first_rows)
  with r(2) show "f \<in> family ` set s" by (auto dest: has_role_family)
next
  fix f assume "f \<in> family ` set s"
  then obtain r where r: "r \<in> set s" "f = family r" by auto
  from family_has_role [OF r(1)] have "has_role (first_rows s) (family r) (model_role r)"
    by (simp add: has_role_first_rows)
  with r(2) show "f \<in> family ` set (first_rows s)" by (auto dest: has_role_family)
qed

lemma families_of_set: "families_of s = sorted_list_of_set (family ` set s)"
  by (simp add: families_of_def sorted_list_of_set_sort_remdups [symmetric])

lemma families_of_first_rows: "families_of (first_rows s) = families_of s"
  by (simp add: families_of_set families_first_rows)

lemma family_delta_first_rows: "family_delta (first_rows s) fam = family_delta s fam"
  by (simp add: family_delta_eq has_role_first_rows hd_rows_of_first_rows)

text \<open>
  The delta computation of the gain chart reads, of the rows of one (family, model_role)
  pair, the first only: the deltas are those of the summary with nothing but the first row
  of each pair, and the delta of a family with both roles is the first specialist accuracy
  minus the first generalist accuracy, times 100.
\<close>

lemma deltas_read_first_rows:
  "family_deltas summary = family_deltas (first_rows summary)
   \<and> family_delta summary fam
       = (if has_role summary fam ''generalist'' \<and> has_role summary fam ''specialist''
          then Some ((accuracy (hd (rows_of summary fam ''specialist''))
                       - accuracy (hd (rows_of summary fam ''generalist''))) * 100)
          else None)"
proof -
  have "family_delta (first_rows summary) = family_delta summary"
    by (rule ext) (rule family_delta_first_rows)
  then show ?thesis
    by (simp add: family_deltas_def families_of_first_rows family_delta_eq)
qed


subsection \<open>A family without a specialist row\<close>









text \<open>
  C1 fails on the code. With a generalist and a specialist row for \<^verbatim>\<open>psk\<close> the emitter
  writes no macro: \<^verbatim>\<open>.format\<close> is applied to the f-string and the literal together, reads
  \<^verbatim>\<open>{\PSKGeneralistAcc}\<close> as a replacement field and raises \<^verbatim>\<open>KeyError\<close>. The literal
  alone formats as intended.
\<close>

theorem callouts_raise_key_error:
  "callouts_text ex_py ex_summary_psk = Inl (KeyError (bs @ ''PSKGeneralistAcc''))
   \<and> py_format ex_py ''{{{:.1f}}}'' (accuracy (hd ex_summary_psk) * 100) = Inr ''{50.0}''"
  by code_simp


subsection \<open>The whole run\<close>

lemma main_cases:
  "main py a paths st =
     (case load_metrics py (arg_logdir a) (arg_pattern a) (arg_study a) paths of
        Inl e \<Rightarrow> (Some e, st)
      | Inr df \<Rightarrow>
          (case callouts_text py (snd (summarize py df (Some (arg_routing_mode a)))) of
             Inl e \<Rightarrow>
               (Some e,
                plot_family_delta (snd (summarize py df (Some (arg_routing_mode a)))) (arg_outdir a)
                  (plot_specialization_gain (snd (summarize py df (Some (arg_routing_mode a))))
                     (arg_outdir a) st))
           | Inr t \<Rightarrow>
               (None,
                (plot_family_delta (snd (summarize py df (Some (arg_routing_mode a)))) (arg_outdir a)
                  (plot_specialization_gain (snd (summarize py df (Some (arg_routing_mode a))))
                     (arg_outdir a) st))
                 ((arg_datadir a, ''specialization_callouts.tex'') \<mapsto> Text t,
                  (arg_datadir a, ''specialization_table.tex'')
                     \<mapsto> Text (table_text py (snd (summarize py df (Some (arg_routing_mode a)))))))))"
  by (simp add: main_def Let_def write_callouts_tex_def write_table_tex_def
      split: sum.splits)

lemma plots_keep_tex:
  "plot_family_delta s outdir (plot_specialization_gain s outdir st) (d, ''specialization_callouts.tex'')
     = st (d, ''specialization_callouts.tex'')"
  "plot_family_delta s outdir (plot_specialization_gain s outdir st) (d, ''specialization_table.tex'')
     = st (d, ''specialization_table.tex'')"
  by (simp_all add: plot_family_delta_def plot_specialization_gain_def)

text \<open>
  C10. A second run on the same files with the same arguments ends as the first did and
  leaves the callouts file and the table file as the first run left them; the exit
  status does not depend on what the output directories held before, and after a run
  that exits with 0 neither do the two TeX files.
\<close>

theorem tex_artifacts_idempotent:
  "fst (main py a paths (snd (main py a paths st)))
     = fst (main py a paths st)
   \<and> snd (main py a paths (snd (main py a paths st)))
        (arg_datadir a, ''specialization_callouts.tex'')
     = snd (main py a paths st) (arg_datadir a, ''specialization_callouts.tex'')
   \<and> snd (main py a paths (snd (main py a paths st)))
        (arg_datadir a, ''specialization_table.tex'')
     = snd (main py a paths st) (arg_datadir a, ''specialization_table.tex'')
   \<and> fst (main py a paths st') = fst (main py a paths st)
   \<and> (fst (main py a paths st) = None \<longrightarrow>
        snd (main py a paths st') (arg_datadir a, ''specialization_callouts.tex'')
          = snd (main py a paths st) (arg_datadir a, ''specialization_callouts.tex'')
        \<and> snd (main py a paths st') (arg_datadir a, ''specialization_table.tex'')
          = snd (main py a paths st) (arg_datadir a, ''specialization_table.tex''))"
  unfolding main_cases
  by (simp add: plots_keep_tex split: sum.splits)

theorem tex_artifacts_idempotent_witness:
  "fst (main ex_py ex_args [LogFile [record_line ''PSK'' ''generalist'' True] None] Map.empty)
     = None
   \<and> snd (main ex_py ex_args [LogFile [record_line ''PSK'' ''generalist'' True] None] ex_stale)
        (''data'', ''specialization_callouts.tex'')
     = Some (Text (placeholder @ [CHR 0x0A]))
   \<and> snd (main ex_py ex_args [LogFile [record_line ''PSK'' ''generalist'' True] None] ex_stale)
        (''data'', ''specialization_table.tex'')
     = snd (main ex_py ex_args [LogFile [record_line ''PSK'' ''generalist'' True] None] Map.empty)
        (''data'', ''specialization_table.tex'')"
proof -
  have ok: "fst (main ex_py ex_args [LogFile [record_line ''PSK'' ''generalist'' True] None]
              Map.empty) = None"
    by code_simp
  have d: "arg_datadir ex_args = ''data''" by (simp add: ex_args_def)
  have c: "snd (main ex_py ex_args [LogFile [record_line ''PSK'' ''generalist'' True] None]
              Map.empty) (''data'', ''specialization_callouts.tex'')
           = Some (Text (placeholder @ [CHR 0x0A]))"
    by code_simp
  from tex_artifacts_idempotent [of ex_py ex_args
      "[LogFile [record_line ''PSK'' ''generalist'' True] None]" Map.empty ex_stale] ok c
  show ?thesis by (simp add: d)
qed

text \<open>
  C6 fails on the code. A file with a generalist and a specialist record for \<^verbatim>\<open>psk\<close>
  matches the glob and gives two usable records, and the run ends in \<^verbatim>\<open>KeyError\<close> after
  the figures, with neither TeX file written; a record whose \<^verbatim>\<open>data\<close> is \<^verbatim>\<open>null\<close> ends the
  run in \<^verbatim>\<open>AttributeError\<close>.
\<close>

theorem run_ends_in_exception:
  "load_metrics ex_py ''../logs'' ''metrics_*.jsonl'' ''s''
      [LogFile [record_line ''PSK'' ''generalist'' True, record_line ''psk'' ''Specialist'' True] None]
     = Inr [\<lparr>family = ''psk'', model_role = ''generalist'', routing_mode = ''none'', correct = True\<rparr>,
            \<lparr>family = ''psk'', model_role = ''specialist'', routing_mode = ''none'', correct = True\<rparr>]
   \<and> fst (main ex_py ex_args
        [LogFile [record_line ''PSK'' ''generalist'' True, record_line ''psk'' ''Specialist'' True] None] Map.empty)
     = Some (KeyError (bs @ ''PSKGeneralistAcc''))
   \<and> snd (main ex_py ex_args
        [LogFile [record_line ''PSK'' ''generalist'' True, record_line ''psk'' ''Specialist'' True] None] Map.empty)
        (''data'', ''specialization_callouts.tex'') = None
   \<and> snd (main ex_py ex_args
        [LogFile [record_line ''PSK'' ''generalist'' True, record_line ''psk'' ''Specialist'' True] None] Map.empty)
        (''data'', ''specialization_table.tex'') = None
   \<and> fst (main ex_py ex_args
        [LogFile [record_line ''PSK'' ''generalist'' True, null_data_line] None] Map.empty)
     = Some AttributeError"
  by code_simp

end
